theory Spec2Isabelle
  imports Main "HOL-Library.Word"
begin

section \<open>Data\<close>

text \<open>
  The client of \<^verbatim>\<open>src/lib/client.ts\<close>. A JavaScript string is a sequence of UTF-16
  code units: \<^verbatim>\<open>s.length\<close> is the number of code units and \<^verbatim>\<open>s.charCodeAt(i)\<close> is
  the i-th code unit. A \<^verbatim>\<open>Uint8Array\<close> is a sequence of bytes; storing a number into
  it keeps the low eight bits.
\<close>

type_synonym byte = "8 word"
type_synonym code_unit = "16 word"
type_synonym jsstring = "code_unit list"
type_synonym uint8array = "byte list"

text \<open>An ASCII literal as a JavaScript string: one code unit per character.\<close>

definition js :: "string \<Rightarrow> jsstring" where
  "js s = map (\<lambda>ch. of_nat (of_char ch)) s"

text \<open>
  \<^verbatim>\<open>ConnectionOptions\<close> (lines 6-11): every field is optional. The constructor
  (lines 19-33) fills in each absent field, so the methods read resolved fields; that is
  what their non-null assertions rely on. Sizes are natural numbers.
\<close>

record ConnectionOptions =
  opt_host :: "jsstring option"
  opt_port :: "nat option"
  opt_maxKeySizeBytes :: "nat option"
  opt_maxValueSizeBytes :: "nat option"

record Options =
  host :: jsstring
  port :: nat
  maxKeySizeBytes :: nat
  maxValueSizeBytes :: nat

text \<open>
  The continuation an operation leaves behind in \<^verbatim>\<open>socket.once('data', ...)\<close>, and the
  value its promise resolves to.
\<close>

datatype waiter = Awaiting_ping | Awaiting_get | Awaiting_set | Awaiting_exists | Awaiting_delete

datatype resolution = Resolved_true | Resolved_SerialResponse uint8array | Resolved_boolean bool

text \<open>
  The socket as the client uses it: whether \<^verbatim>\<open>connect\<close> has succeeded or
  \<^verbatim>\<open>destroy\<close> has been called, the buffers handed to \<^verbatim>\<open>socket.write\<close> in call order,
  and the one-shot \<^verbatim>\<open>'data'\<close> listeners in registration order.
\<close>

datatype socket_state = Unopened | Open | Destroyed

record Socket =
  state :: socket_state
  written :: "uint8array list"
  data_listeners :: "waiter list"

record Client =
  options :: Options
  socket :: Socket

text \<open>
  What a method can throw: the two strings of \<^verbatim>\<open>validateKey\<close> and
  \<^verbatim>\<open>validateValue\<close> (with the values interpolated into them), the \<^verbatim>\<open>RangeError\<close> of
  \<^verbatim>\<open>TypedArray.prototype.set\<close>, and the socket's \<^verbatim>\<open>'error'\<close> event during
  \<^verbatim>\<open>connect\<close>. An \<^verbatim>\<open>async\<close> method that throws returns a rejected promise.
\<close>

datatype error = KeyTooLong jsstring nat | ValueTooLong nat | RangeError | SocketError

text \<open>
  Modelled from the spec: the type \<^verbatim>\<open>SerializableValue\<close> of \<^verbatim>\<open>./data/serial\<close> is not
  under src/; the spec's data model gives a value as one of boolean, number or string.
  The number type is left as a parameter.
\<close>

datatype 'n SerializableValue = VBoolean bool | VNumber 'n | VString jsstring

text \<open>
  Modelled from the spec: the \<^verbatim>\<open>Commands\<close> enumeration of \<^verbatim>\<open>../commands\<close> and
  \<^verbatim>\<open>encodeNumberToUint8Array\<close> of \<^verbatim>\<open>./data/encoding\<close> are not under src/. The spec
  binds each command to one reserved byte value and treats the numeric encoder as an
  opaque fixed transform. They are parameters of the model, together with
  \<^verbatim>\<open>Number.prototype.toString\<close>.
\<close>

record 'n externals =
  Commands_PING :: byte
  Commands_GET :: byte
  Commands_SET :: byte
  Commands_EXISTS :: byte
  Commands_DELETE :: byte
  toString :: "'n \<Rightarrow> jsstring"
  encodeNumberToUint8Array :: "'n \<Rightarrow> uint8array"

section \<open>Built-ins of the host language\<close>

text \<open>\<^verbatim>\<open>new Uint8Array(n)\<close>: n zero bytes.\<close>

definition new_Uint8Array :: "nat \<Rightarrow> uint8array" where
  "new_Uint8Array n = replicate n 0"

text \<open>
  \<^verbatim>\<open>target.set(source, offset)\<close>: throws a \<^verbatim>\<open>RangeError\<close> when the source does not
  fit behind the offset, and copies it there otherwise.
\<close>

definition Uint8Array_set :: "uint8array \<Rightarrow> uint8array \<Rightarrow> nat \<Rightarrow> error + uint8array" where
  "Uint8Array_set target source offset =
     (if length source + offset > length target then Inl RangeError
      else Inr (take offset target @ source @ drop (offset + length source) target))"

text \<open>
  \<^verbatim>\<open>TextEncoder.encode\<close>: the UTF-8 encoding of the string's code points. A surrogate
  pair is one code point; a surrogate without its partner is replaced by U+FFFD.
\<close>

definition is_high_surrogate :: "code_unit \<Rightarrow> bool" where
  "is_high_surrogate u = (0xD800 \<le> unat u \<and> unat u < 0xDC00)"

definition is_low_surrogate :: "code_unit \<Rightarrow> bool" where
  "is_low_surrogate u = (0xDC00 \<le> unat u \<and> unat u < 0xE000)"

definition scalar_of_unit :: "code_unit \<Rightarrow> nat" where
  "scalar_of_unit u = (if is_high_surrogate u \<or> is_low_surrogate u then 0xFFFD else unat u)"

fun code_points :: "jsstring \<Rightarrow> nat list" where
  "code_points [] = []"
| "code_points [u] = [scalar_of_unit u]"
| "code_points (u # v # rest) =
     (if is_high_surrogate u \<and> is_low_surrogate v
      then (0x10000 + (unat u - 0xD800) * 0x400 + (unat v - 0xDC00)) # code_points rest
      else scalar_of_unit u # code_points (v # rest))"

definition utf8 :: "nat \<Rightarrow> uint8array" where
  "utf8 cp =
     (if cp < 0x80 then [of_nat cp]
      else if cp < 0x800 then [of_nat (0xC0 + cp div 0x40), of_nat (0x80 + cp mod 0x40)]
      else if cp < 0x10000 then
        [of_nat (0xE0 + cp div 0x1000), of_nat (0x80 + cp div 0x40 mod 0x40),
         of_nat (0x80 + cp mod 0x40)]
      else
        [of_nat (0xF0 + cp div 0x40000), of_nat (0x80 + cp div 0x1000 mod 0x40),
         of_nat (0x80 + cp div 0x40 mod 0x40), of_nat (0x80 + cp mod 0x40)])"

definition TextEncoder_encode :: "jsstring \<Rightarrow> uint8array" where
  "TextEncoder_encode s = concat (map utf8 (code_points s))"

text \<open>
  The socket calls. \<^verbatim>\<open>write\<close> takes the whole buffer in one call;
  \<^verbatim>\<open>once('data', f)\<close> registers a listener that the next \<^verbatim>\<open>'data'\<close> event runs and
  removes.
\<close>

definition socket_write :: "uint8array \<Rightarrow> Socket \<Rightarrow> Socket" where
  "socket_write data s = s\<lparr>written := written s @ [data]\<rparr>"

definition socket_once_data :: "waiter \<Rightarrow> Socket \<Rightarrow> Socket" where
  "socket_once_data w s = s\<lparr>data_listeners := data_listeners s @ [w]\<rparr>"

definition socket_destroy :: "Socket \<Rightarrow> Socket" where
  "socket_destroy s = s\<lparr>state := Destroyed\<rparr>"

section \<open>The client\<close>

text \<open>The constructor, lines 19-33.\<close>

definition default_options :: ConnectionOptions where
  "default_options =
     \<lparr>opt_host = Some (js ''localhost''), opt_port = Some 9055,
      opt_maxKeySizeBytes = Some 32, opt_maxValueSizeBytes = Some 1024\<rparr>"

definition new_Socket :: Socket where
  "new_Socket = \<lparr>state = Unopened, written = [], data_listeners = []\<rparr>"

definition resolve_options :: "ConnectionOptions \<Rightarrow> Options" where
  "resolve_options opts =
     \<lparr>host = (case opt_host opts of None \<Rightarrow> js ''localhost'' | Some h \<Rightarrow> h),
      port = (case opt_port opts of None \<Rightarrow> 9055 | Some p \<Rightarrow> p),
      maxKeySizeBytes = (case opt_maxKeySizeBytes opts of None \<Rightarrow> 32 | Some k \<Rightarrow> k),
      maxValueSizeBytes = (case opt_maxValueSizeBytes opts of None \<Rightarrow> 1024 | Some v \<Rightarrow> v)\<rparr>"

definition new_Client :: "ConnectionOptions option \<Rightarrow> Client" where
  "new_Client arg =
     \<lparr>options = resolve_options (case arg of None \<Rightarrow> default_options | Some opts \<Rightarrow> opts),
      socket = new_Socket\<rparr>"

text \<open>\<^verbatim>\<open>validateKey\<close>, lines 35-40.\<close>

definition validateKey :: "Client \<Rightarrow> jsstring \<Rightarrow> error + unit" where
  "validateKey c key =
     (if length key > maxKeySizeBytes (options c)
      then Inl (KeyTooLong key (maxKeySizeBytes (options c)))
      else Inr ())"

text \<open>\<^verbatim>\<open>validateValue\<close>, lines 42-55.\<close>

definition validateValue :: "'n externals \<Rightarrow> Client \<Rightarrow> 'n SerializableValue \<Rightarrow> error + unit" where
  "validateValue ext c v =
     (case v of
        VBoolean b \<Rightarrow> Inr ()
      | VNumber n \<Rightarrow>
          (if length (toString ext n) > maxValueSizeBytes (options c)
           then Inl (ValueTooLong (maxValueSizeBytes (options c))) else Inr ())
      | VString s \<Rightarrow>
          (if length s > maxValueSizeBytes (options c)
           then Inl (ValueTooLong (maxValueSizeBytes (options c))) else Inr ()))"

text \<open>
  \<^verbatim>\<open>serializeKey\<close>, lines 57-67: after the validation, byte i of the buffer is code
  unit i of the key, cut to its low eight bits by the store into the \<^verbatim>\<open>Uint8Array\<close>.
\<close>

definition serializeKey :: "Client \<Rightarrow> jsstring \<Rightarrow> error + uint8array" where
  "serializeKey c key =
     (case validateKey c key of
        Inl e \<Rightarrow> Inl e
      | Inr _ \<Rightarrow> Inr (map ucast key))"

text \<open>The conversion of the value to bytes in \<^verbatim>\<open>set\<close>, lines 122-128.\<close>

definition encodeValue :: "'n externals \<Rightarrow> 'n SerializableValue \<Rightarrow> uint8array" where
  "encodeValue ext v =
     (case v of
        VString s \<Rightarrow> TextEncoder_encode s
      | VNumber n \<Rightarrow> encodeNumberToUint8Array ext n
      | VBoolean b \<Rightarrow> [if b then 1 else 0])"

text \<open>
  The three statements every keyed method repeats (lines 104-107, 131-134, 150-153 and
  168-171): allocate \<^verbatim>\<open>1 + maxKeySizeBytes\<close> bytes (plus the value's length in
  \<^verbatim>\<open>set\<close>), store the command code at index 0, and copy the serialized key to offset 1.
\<close>

definition command_and_key :: "byte \<Rightarrow> Client \<Rightarrow> jsstring \<Rightarrow> nat \<Rightarrow> error + uint8array" where
  "command_and_key cmd c key extra =
     (let data = new_Uint8Array (1 + maxKeySizeBytes (options c) + extra);
          data = data[0 := cmd]
      in case serializeKey c key of
           Inl e \<Rightarrow> Inl e
         | Inr k \<Rightarrow> Uint8Array_set data k 1)"

text \<open>
  The end of every method: write the buffer, then wait for the next \<^verbatim>\<open>'data'\<close> event.
  The method's promise stays pending; the outcome \<open>Inr ()\<close> says that it was not rejected.
\<close>

definition write_and_wait :: "uint8array \<Rightarrow> waiter \<Rightarrow> Client \<Rightarrow> (error + unit) \<times> Client" where
  "write_and_wait data w c =
     (Inr (), c\<lparr>socket := socket_once_data w (socket_write data (socket c))\<rparr>)"

text \<open>
  \<^verbatim>\<open>connect\<close>, lines 69-82. Whether the socket reaches the peer is the environment's
  choice, given as the first argument.
\<close>

definition client_connect :: "bool \<Rightarrow> Client \<Rightarrow> (error + unit) \<times> Client" where
  "client_connect established c =
     (if established then (Inr (), c\<lparr>socket := (socket c)\<lparr>state := Open\<rparr>\<rparr>)
      else (Inl SocketError, c\<lparr>socket := socket_destroy (socket c)\<rparr>))"

text \<open>\<^verbatim>\<open>close\<close>, lines 84-88.\<close>

definition client_close :: "Client \<Rightarrow> Client" where
  "client_close c = c\<lparr>socket := socket_destroy (socket c)\<rparr>"

text \<open>\<^verbatim>\<open>ping\<close>, lines 90-98.\<close>

definition client_ping :: "'n externals \<Rightarrow> Client \<Rightarrow> (error + unit) \<times> Client" where
  "client_ping ext c = write_and_wait [Commands_PING ext] Awaiting_ping c"

text \<open>\<^verbatim>\<open>get\<close>, lines 100-116.\<close>

definition client_get :: "'n externals \<Rightarrow> jsstring \<Rightarrow> Client \<Rightarrow> (error + unit) \<times> Client" where
  "client_get ext key c =
     (case validateKey c key of
        Inl e \<Rightarrow> (Inl e, c)
      | Inr _ \<Rightarrow>
          (case command_and_key (Commands_GET ext) c key 0 of
             Inl e \<Rightarrow> (Inl e, c)
           | Inr data \<Rightarrow> write_and_wait data Awaiting_get c))"

text \<open>
  \<^verbatim>\<open>set\<close>, lines 118-144. The value is copied to the constant offset 33 (line 135).
\<close>

definition client_set ::
  "'n externals \<Rightarrow> jsstring \<Rightarrow> 'n SerializableValue \<Rightarrow> Client \<Rightarrow> (error + unit) \<times> Client" where
  "client_set ext key v c =
     (case validateKey c key of
        Inl e \<Rightarrow> (Inl e, c)
      | Inr _ \<Rightarrow>
          (case validateValue ext c v of
             Inl e \<Rightarrow> (Inl e, c)
           | Inr _ \<Rightarrow>
               (let bytes = encodeValue ext v in
                case command_and_key (Commands_SET ext) c key (length bytes) of
                  Inl e \<Rightarrow> (Inl e, c)
                | Inr data \<Rightarrow>
                    (case Uint8Array_set data bytes 33 of
                       Inl e \<Rightarrow> (Inl e, c)
                     | Inr data' \<Rightarrow> write_and_wait data' Awaiting_set c))))"

text \<open>\<^verbatim>\<open>exists\<close>, lines 146-162.\<close>

definition client_exists :: "'n externals \<Rightarrow> jsstring \<Rightarrow> Client \<Rightarrow> (error + unit) \<times> Client" where
  "client_exists ext key c =
     (case validateKey c key of
        Inl e \<Rightarrow> (Inl e, c)
      | Inr _ \<Rightarrow>
          (case command_and_key (Commands_EXISTS ext) c key 0 of
             Inl e \<Rightarrow> (Inl e, c)
           | Inr data \<Rightarrow> write_and_wait data Awaiting_exists c))"

text \<open>\<^verbatim>\<open>delete\<close>, lines 164-180.\<close>

definition client_delete :: "'n externals \<Rightarrow> jsstring \<Rightarrow> Client \<Rightarrow> (error + unit) \<times> Client" where
  "client_delete ext key c =
     (case validateKey c key of
        Inl e \<Rightarrow> (Inl e, c)
      | Inr _ \<Rightarrow>
          (case command_and_key (Commands_DELETE ext) c key 0 of
             Inl e \<Rightarrow> (Inl e, c)
           | Inr data \<Rightarrow> write_and_wait data Awaiting_delete c))"

text \<open>
  \<^verbatim>\<open>res[0] === 1\<close> (lines 143, 161, 179): reading index 0 of an empty buffer gives
  \<^verbatim>\<open>undefined\<close>, which is not 1.
\<close>

definition first_byte_is_one :: "uint8array \<Rightarrow> bool" where
  "first_byte_is_one res = (case res of [] \<Rightarrow> False | b # _ \<Rightarrow> b = 1)"

text \<open>What each method returns once its listener has received the chunk.\<close>

fun resume :: "waiter \<Rightarrow> uint8array \<Rightarrow> resolution" where
  "resume Awaiting_ping res = Resolved_true"
| "resume Awaiting_get res = Resolved_SerialResponse res"
| "resume Awaiting_set res = Resolved_boolean (first_byte_is_one res)"
| "resume Awaiting_exists res = Resolved_boolean (first_byte_is_one res)"
| "resume Awaiting_delete res = Resolved_boolean (first_byte_is_one res)"

text \<open>
  A \<^verbatim>\<open>'data'\<close> event: every registered one-shot listener runs on the chunk, in
  registration order, and is removed.
\<close>

definition emit_data :: "uint8array \<Rightarrow> Client \<Rightarrow> resolution list \<times> Client" where
  "emit_data chunk c =
     (map (\<lambda>w. resume w chunk) (data_listeners (socket c)),
      c\<lparr>socket := (socket c)\<lparr>data_listeners := []\<rparr>\<rparr>)"

text \<open>The five operations as one type, to speak of every operation at once.\<close>

datatype 'n operation =
  Ping | Get jsstring | Set jsstring "'n SerializableValue" | Exists jsstring | Delete jsstring

fun invoke :: "'n externals \<Rightarrow> 'n operation \<Rightarrow> Client \<Rightarrow> (error + unit) \<times> Client" where
  "invoke ext Ping c = client_ping ext c"
| "invoke ext (Get key) c = client_get ext key c"
| "invoke ext (Set key v) c = client_set ext key v c"
| "invoke ext (Exists key) c = client_exists ext key c"
| "invoke ext (Delete key) c = client_delete ext key c"

section \<open>A concrete instance of the external parts\<close>

text \<open>
  For evaluating the model on concrete inputs: numbers are natural numbers printed in
  decimal and encoded as eight little-endian bytes, and the command codes are 0 to 4.
  Nothing proved for all inputs depends on these choices.
\<close>

fun decimal :: "nat \<Rightarrow> jsstring" where
  "decimal n = (if n < 10 then [of_nat (48 + n)] else decimal (n div 10) @ [of_nat (48 + n mod 10)])"

declare decimal.simps [simp del]

definition sample_externals :: "nat externals" where
  "sample_externals =
     \<lparr>Commands_PING = 0, Commands_GET = 1, Commands_SET = 2, Commands_EXISTS = 3,
      Commands_DELETE = 4, toString = decimal,
      encodeNumberToUint8Array = (\<lambda>n. map (\<lambda>i. of_nat (n div 256 ^ i)) [0..<8])\<rparr>"

definition sample_client :: "nat \<Rightarrow> nat \<Rightarrow> Client" where
  "sample_client k v =
     new_Client (Some \<lparr>opt_host = Some (js ''localhost''), opt_port = Some 9055,
                       opt_maxKeySizeBytes = Some k, opt_maxValueSizeBytes = Some v\<rparr>)"

definition connected_client :: "nat \<Rightarrow> nat \<Rightarrow> Client" where
  "connected_client k v = snd (client_connect True (sample_client k v))"


section \<open>Evaluation on concrete inputs\<close>

lemmas sample_defs =
  connected_client_def sample_client_def new_Client_def resolve_options_def new_Socket_def
  client_connect_def client_close_def socket_destroy_def sample_externals_def js_def

lemmas method_defs =
  client_ping_def client_get_def client_set_def client_exists_def client_delete_def
  validateKey_def validateValue_def serializeKey_def encodeValue_def command_and_key_def
  write_and_wait_def socket_write_def socket_once_data_def Uint8Array_set_def new_Uint8Array_def
  TextEncoder_encode_def utf8_def scalar_of_unit_def is_high_surrogate_def is_low_surrogate_def
  Let_def

lemma replicate_numeral: "replicate (numeral v) x = x # replicate (pred_numeral v) x"
  by (simp add: numeral_eq_Suc)

section \<open>Keys\<close>

lemma validateKey_fits:
  "length key \<le> maxKeySizeBytes (options c) \<Longrightarrow> validateKey c key = Inr ()"
  by (simp add: validateKey_def)

lemma validateKey_long:
  "maxKeySizeBytes (options c) < length key \<Longrightarrow>
   validateKey c key = Inl (KeyTooLong key (maxKeySizeBytes (options c)))"
  by (simp add: validateKey_def)

lemma validateKey_Inr_iff:
  "validateKey c key = Inr () \<longleftrightarrow> length key \<le> maxKeySizeBytes (options c)"
  by (simp add: validateKey_def)

lemma serializeKey_fits:
  "length key \<le> maxKeySizeBytes (options c) \<Longrightarrow> serializeKey c key = Inr (map ucast key)"
  by (simp add: serializeKey_def validateKey_fits)

lemma serializeKey_long:
  "maxKeySizeBytes (options c) < length key \<Longrightarrow>
   serializeKey c key = Inl (KeyTooLong key (maxKeySizeBytes (options c)))"
  by (simp add: serializeKey_def validateKey_long)

lemma unat_low_byte: "unat (ucast u :: byte) = unat u mod 256"
  for u :: code_unit
  by (simp add: unsigned_ucast_eq take_bit_eq_mod)

section \<open>Frames\<close>

lemma Uint8Array_set_at_1:
  assumes "length k \<le> n"
  shows "Uint8Array_set ((new_Uint8Array (1 + n + extra))[0 := cmd]) k 1
         = Inr (cmd # k @ replicate (n - length k + extra) 0)"
proof -
  have "(new_Uint8Array (1 + n + extra))[0 := cmd] = cmd # replicate (n + extra) 0"
    by (simp add: new_Uint8Array_def)
  moreover have "drop (length k) (replicate (n + extra) (0::byte)) = replicate (n - length k + extra) 0"
    using assms by simp
  ultimately show ?thesis
    using assms by (simp add: Uint8Array_set_def)
qed

lemma command_and_key_fits:
  "length key \<le> maxKeySizeBytes (options c) \<Longrightarrow>
   command_and_key cmd c key extra
   = Inr (cmd # map ucast key @ replicate (maxKeySizeBytes (options c) - length key + extra) 0)"
  using Uint8Array_set_at_1 [of "map ucast key" "maxKeySizeBytes (options c)" extra cmd]
  by (simp add: command_and_key_def serializeKey_fits Let_def)

lemma command_and_key_long:
  "maxKeySizeBytes (options c) < length key \<Longrightarrow>
   command_and_key cmd c key extra = Inl (KeyTooLong key (maxKeySizeBytes (options c)))"
  by (simp add: command_and_key_def serializeKey_long Let_def)

lemma write_and_wait_socket:
  "socket (snd (write_and_wait data w c))
   = (socket c)\<lparr>written := written (socket c) @ [data],
                data_listeners := data_listeners (socket c) @ [w]\<rparr>"
  by (simp add: write_and_wait_def socket_write_def socket_once_data_def)

lemma write_and_wait_accepted: "fst (write_and_wait data w c) = Inr ()"
  by (simp add: write_and_wait_def)

section \<open>The keyed methods\<close>

lemma client_get_fits:
  "length key \<le> maxKeySizeBytes (options c) \<Longrightarrow>
   client_get ext key c
   = write_and_wait (Commands_GET ext # map ucast key
                     @ replicate (maxKeySizeBytes (options c) - length key) 0) Awaiting_get c"
  by (simp add: client_get_def validateKey_fits command_and_key_fits)

lemma client_exists_fits:
  "length key \<le> maxKeySizeBytes (options c) \<Longrightarrow>
   client_exists ext key c
   = write_and_wait (Commands_EXISTS ext # map ucast key
                     @ replicate (maxKeySizeBytes (options c) - length key) 0) Awaiting_exists c"
  by (simp add: client_exists_def validateKey_fits command_and_key_fits)

lemma client_delete_fits:
  "length key \<le> maxKeySizeBytes (options c) \<Longrightarrow>
   client_delete ext key c
   = write_and_wait (Commands_DELETE ext # map ucast key
                     @ replicate (maxKeySizeBytes (options c) - length key) 0) Awaiting_delete c"
  by (simp add: client_delete_def validateKey_fits command_and_key_fits)

lemma client_get_long:
  "maxKeySizeBytes (options c) < length key \<Longrightarrow>
   client_get ext key c = (Inl (KeyTooLong key (maxKeySizeBytes (options c))), c)"
  by (simp add: client_get_def validateKey_long)

lemma client_exists_long:
  "maxKeySizeBytes (options c) < length key \<Longrightarrow>
   client_exists ext key c = (Inl (KeyTooLong key (maxKeySizeBytes (options c))), c)"
  by (simp add: client_exists_def validateKey_long)

lemma client_delete_long:
  "maxKeySizeBytes (options c) < length key \<Longrightarrow>
   client_delete ext key c = (Inl (KeyTooLong key (maxKeySizeBytes (options c))), c)"
  by (simp add: client_delete_def validateKey_long)

lemma client_set_long:
  "maxKeySizeBytes (options c) < length key \<Longrightarrow>
   client_set ext key v c = (Inl (KeyTooLong key (maxKeySizeBytes (options c))), c)"
  by (simp add: client_set_def validateKey_long)

lemma client_set_value_rejected:
  "length key \<le> maxKeySizeBytes (options c) \<Longrightarrow> validateValue ext c v = Inl e \<Longrightarrow>
   client_set ext key v c = (Inl e, c)"
  by (simp add: client_set_def validateKey_fits)

text \<open>
  The copy of the value to offset 33 (line 135). Below a key size of 32 the value does not
  fit behind offset 33 and the copy throws; at 32 the offset is the end of the key region.
\<close>

lemma client_set_below_32:
  "length key \<le> maxKeySizeBytes (options c) \<Longrightarrow> validateValue ext c v = Inr () \<Longrightarrow>
   maxKeySizeBytes (options c) < 32 \<Longrightarrow>
   client_set ext key v c = (Inl RangeError, c)"
  by (simp add: client_set_def validateKey_fits command_and_key_fits Let_def Uint8Array_set_def)

lemma client_set_at_32:
  assumes "length key \<le> maxKeySizeBytes (options c)" and "validateValue ext c v = Inr ()"
    and "maxKeySizeBytes (options c) = 32"
  shows "client_set ext key v c
         = write_and_wait (Commands_SET ext # map ucast key @ replicate (32 - length key) 0
                           @ encodeValue ext v) Awaiting_set c"
  using assms
  by (simp add: client_set_def validateKey_fits command_and_key_fits Let_def Uint8Array_set_def
      replicate_add)

text \<open>
  With the default key size the whole exchange goes through: the frame is the command, the
  padded key and the value, and the reply 1 resolves the pending call to true.
\<close>

lemma set_then_reply_at_32:
  "written (socket (snd (client_set sample_externals (js ''user1'') (VString (js ''abc''))
                           (connected_client 32 16))))
     = [[2, 0x75, 0x73, 0x65, 0x72, 0x31, 0, 0, 0, 0, 0, 0, 0, 0, 0, 0, 0, 0, 0, 0, 0, 0, 0,
         0, 0, 0, 0, 0, 0, 0, 0, 0, 0, 0x61, 0x62, 0x63]]
   \<and> fst (emit_data [1] (snd (client_set sample_externals (js ''user1'') (VString (js ''abc''))
                                  (connected_client 32 16))))
     = [Resolved_boolean True]"
  by (simp add: sample_defs method_defs emit_data_def first_byte_is_one_def replicate_numeral)

section \<open>Values\<close>

lemma validateValue_boolean: "validateValue ext c (VBoolean b) = Inr ()"
  by (simp add: validateValue_def)

lemma encodeValue_boolean: "encodeValue ext (VBoolean b) = [if b then 1 else 0]"
  by (simp add: encodeValue_def)

lemma validateValue_number:
  "validateValue ext c (VNumber n)
   = (if maxValueSizeBytes (options c) < length (toString ext n)
      then Inl (ValueTooLong (maxValueSizeBytes (options c))) else Inr ())"
  by (simp add: validateValue_def)

lemma validateValue_string:
  "validateValue ext c (VString s)
   = (if maxValueSizeBytes (options c) < length s
      then Inl (ValueTooLong (maxValueSizeBytes (options c))) else Inr ())"
  by (simp add: validateValue_def)

section \<open>Every operation\<close>

lemma validateKey_options: "options c' = options c \<Longrightarrow> validateKey c' key = validateKey c key"
  by (simp add: validateKey_def)

lemma validateValue_options:
  "options c' = options c \<Longrightarrow> validateValue ext c' v = validateValue ext c v"
  by (cases v) (simp_all add: validateValue_def)

lemma command_and_key_options:
  "options c' = options c \<Longrightarrow> command_and_key cmd c' key extra = command_and_key cmd c key extra"
  by (simp add: command_and_key_def serializeKey_def validateKey_def)

lemma invoke_outcome:
  assumes "options c' = options c"
  shows "(\<exists>e. invoke ext op c = (Inl e, c) \<and> invoke ext op c' = (Inl e, c')) \<or>
         (\<exists>data w. invoke ext op c = write_and_wait data w c
                   \<and> invoke ext op c' = write_and_wait data w c')"
proof (cases op)
  case Ping
  then have "invoke ext op c = write_and_wait [Commands_PING ext] Awaiting_ping c"
    and "invoke ext op c' = write_and_wait [Commands_PING ext] Awaiting_ping c'"
    by (simp_all add: client_ping_def)
  then show ?thesis by blast
next
  case (Get key)
  then show ?thesis
    by (auto simp: client_get_def validateKey_options [OF assms]
        command_and_key_options [OF assms] split: sum.splits)
next
  case (Set key v)
  then show ?thesis
    by (auto simp: client_set_def Let_def validateKey_options [OF assms]
        validateValue_options [OF assms] command_and_key_options [OF assms] split: sum.splits)
next
  case (Exists key)
  then show ?thesis
    by (auto simp: client_exists_def validateKey_options [OF assms]
        command_and_key_options [OF assms] split: sum.splits)
next
  case (Delete key)
  then show ?thesis
    by (auto simp: client_delete_def validateKey_options [OF assms]
        command_and_key_options [OF assms] split: sum.splits)
qed

lemma invoke_alone:
  "(\<exists>e. invoke ext op c = (Inl e, c)) \<or> (\<exists>data w. invoke ext op c = write_and_wait data w c)"
  using invoke_outcome [of c c ext op] by blast

lemma invoke_rejected_unchanged: "fst (invoke ext op c) = Inl e \<Longrightarrow> snd (invoke ext op c) = c"
  using invoke_alone [of ext op c] by (auto simp: write_and_wait_def)

lemma invoke_accepted_socket:
  "fst (invoke ext op c) = Inr u \<Longrightarrow>
   \<exists>data w. socket (snd (invoke ext op c))
     = (socket c)\<lparr>written := written (socket c) @ [data],
                  data_listeners := data_listeners (socket c) @ [w]\<rparr>"
proof -
  assume a: "fst (invoke ext op c) = Inr u"
  from invoke_alone [of ext op c] a
  obtain data w where "invoke ext op c = write_and_wait data w c"
    by auto
  then have "socket (snd (invoke ext op c))
     = (socket c)\<lparr>written := written (socket c) @ [data],
                  data_listeners := data_listeners (socket c) @ [w]\<rparr>"
    by (simp add: write_and_wait_socket)
  then show ?thesis by blast
qed



section \<open>Claims\<close>

text \<open>
  C7. A key longer than the configured maximum key size is rejected with the key-too-long
  error by the key validation, by the key encoding and by every method that takes a key
  (get, set, exists, delete), and the client with its socket is left as it was: nothing is
  written. The encoding takes one byte per code unit, so the length the check compares is
  the encoded byte length.
\<close>

theorem key_too_long_nothing_written:
  assumes "maxKeySizeBytes (options c) < length key"
  shows "validateKey c key = Inl (KeyTooLong key (maxKeySizeBytes (options c)))
       \<and> serializeKey c key = Inl (KeyTooLong key (maxKeySizeBytes (options c)))
       \<and> client_get ext key c = (Inl (KeyTooLong key (maxKeySizeBytes (options c))), c)
       \<and> client_set ext key v c = (Inl (KeyTooLong key (maxKeySizeBytes (options c))), c)
       \<and> client_exists ext key c = (Inl (KeyTooLong key (maxKeySizeBytes (options c))), c)
       \<and> client_delete ext key c = (Inl (KeyTooLong key (maxKeySizeBytes (options c))), c)"
  using assms
  by (simp add: validateKey_long serializeKey_long client_get_long client_set_long
      client_exists_long client_delete_long)

theorem key_too_long_nothing_written_witness:
  "maxKeySizeBytes (options (connected_client 2 16)) < length (js ''abc'')
   \<and> client_get sample_externals (js ''abc'') (connected_client 2 16)
       = (Inl (KeyTooLong (js ''abc'') 2), connected_client 2 16)
   \<and> client_set sample_externals (js ''abc'') (VBoolean True) (connected_client 2 16)
       = (Inl (KeyTooLong (js ''abc'') 2), connected_client 2 16)
   \<and> written (socket (connected_client 2 16)) = []"
proof -
  have h: "maxKeySizeBytes (options (connected_client 2 16)) < length (js ''abc'')"
    by (simp add: sample_defs)
  have k: "maxKeySizeBytes (options (connected_client 2 16)) = 2"
    and w: "written (socket (connected_client 2 16)) = []"
    by (simp_all add: sample_defs)
  from key_too_long_nothing_written
         [OF h, of sample_externals "VBoolean True"] h k w
  show ?thesis by simp
qed

text \<open>
  C8. The status decoding used by set, exists and delete gives true exactly when the
  response has a first byte and that byte is 1. Any other response, the empty one
  included, gives false; the decoding is a total function and raises nothing.
\<close>

theorem status_response_lenient:
  "first_byte_is_one res = (\<exists>rest. res = 1 # rest)
   \<and> first_byte_is_one [] = False
   \<and> resume Awaiting_set res = Resolved_boolean (\<exists>rest. res = 1 # rest)
   \<and> resume Awaiting_exists res = Resolved_boolean (\<exists>rest. res = 1 # rest)
   \<and> resume Awaiting_delete res = Resolved_boolean (\<exists>rest. res = 1 # rest)"
  by (cases res) (simp_all add: first_byte_is_one_def)

theorem status_response_lenient_witness:
  "first_byte_is_one [1, 7] = True \<and> first_byte_is_one [0] = False
   \<and> first_byte_is_one [2, 1] = False
   \<and> resume Awaiting_exists [] = Resolved_boolean False"
  using status_response_lenient [of "[1, 7]"] status_response_lenient [of "[0]"]
    status_response_lenient [of "[2, 1]"] status_response_lenient [of "[]"]
  by simp

text \<open>
  C9. For a key that passes the validation, the key encoding returns a buffer of exactly
  as many bytes as the key has characters (UTF-16 code units, what \<^verbatim>\<open>key.length\<close>
  counts), and byte i is the code of character i cut to its low eight bits, that is the
  code modulo 256. This is not UTF-8.
\<close>

theorem serializeKey_one_byte_per_character:
  assumes "validateKey c key = Inr ()"
  shows "\<exists>buf. serializeKey c key = Inr buf \<and> length buf = length key
           \<and> (\<forall>i<length key. unat (buf ! i) = unat (key ! i) mod 256)"
  using assms by (simp add: serializeKey_def unat_low_byte)

theorem serializeKey_one_byte_per_character_witness:
  "validateKey (connected_client 8 16) [0x141, 0x42] = Inr ()
   \<and> serializeKey (connected_client 8 16) [0x141, 0x42] = Inr [0x41, 0x42]"
proof -
  have h: "validateKey (connected_client 8 16) [0x141, 0x42] = Inr ()"
    by (simp add: sample_defs validateKey_def)
  from serializeKey_one_byte_per_character [OF h] h
  show ?thesis by (simp add: serializeKey_def)
qed

text \<open>
  C10. For a key that passes the validation, and any configuration, the frames that get,
  exists and delete write are the same bytes after byte 0: the command code, then the
  encoded key from offset 1, then zeros up to the total length of 1 + the configured
  maximum key size.
\<close>

theorem keyed_frames_differ_in_command_only:
  assumes "validateKey c key = Inr ()"
  shows "length (map ucast key @ replicate (maxKeySizeBytes (options c) - length key) (0::byte))
           = maxKeySizeBytes (options c)
       \<and> written (socket (snd (client_get ext key c)))
           = written (socket c)
             @ [Commands_GET ext # map ucast key
                @ replicate (maxKeySizeBytes (options c) - length key) 0]
       \<and> written (socket (snd (client_exists ext key c)))
           = written (socket c)
             @ [Commands_EXISTS ext # map ucast key
                @ replicate (maxKeySizeBytes (options c) - length key) 0]
       \<and> written (socket (snd (client_delete ext key c)))
           = written (socket c)
             @ [Commands_DELETE ext # map ucast key
                @ replicate (maxKeySizeBytes (options c) - length key) 0]"
proof -
  from assms have fits: "length key \<le> maxKeySizeBytes (options c)"
    by (simp add: validateKey_Inr_iff)
  then show ?thesis
    by (simp add: client_get_fits client_exists_fits client_delete_fits write_and_wait_socket)
qed

theorem keyed_frames_differ_in_command_only_witness:
  "validateKey (connected_client 4 16) (js ''ab'') = Inr ()
   \<and> written (socket (snd (client_get sample_externals (js ''ab'') (connected_client 4 16))))
       = [[1, 0x61, 0x62, 0, 0]]
   \<and> written (socket (snd (client_exists sample_externals (js ''ab'') (connected_client 4 16))))
       = [[3, 0x61, 0x62, 0, 0]]
   \<and> written (socket (snd (client_delete sample_externals (js ''ab'') (connected_client 4 16))))
       = [[4, 0x61, 0x62, 0, 0]]"
proof -
  have h: "validateKey (connected_client 4 16) (js ''ab'') = Inr ()"
    by (simp add: sample_defs validateKey_def)
  have k: "maxKeySizeBytes (options (connected_client 4 16)) = 4"
    and w: "written (socket (connected_client 4 16)) = []"
    by (simp_all add: sample_defs)
  from keyed_frames_differ_in_command_only [OF h, of sample_externals] h
  show ?thesis
    by (simp add: k w) (simp add: sample_externals_def js_def replicate_numeral)
qed



text \<open>
  C5. In every operation the key-size check comes first, the value-size check second, the
  frame construction third and the socket write last, and a failed check writes nothing.
  A key that is too long is rejected with the key error whatever the value is; with a key
  that fits, a value that is too long is rejected with the value error, also where the
  frame construction would have failed; every rejected operation leaves the client and
  its socket as they were; an operation that is not rejected hands one buffer to the
  socket.
\<close>

theorem validation_before_frame_before_write:
  "(maxKeySizeBytes (options c) < length key \<longrightarrow>
      client_set ext key v c = (Inl (KeyTooLong key (maxKeySizeBytes (options c))), c)
    \<and> client_get ext key c = (Inl (KeyTooLong key (maxKeySizeBytes (options c))), c)
    \<and> client_exists ext key c = (Inl (KeyTooLong key (maxKeySizeBytes (options c))), c)
    \<and> client_delete ext key c = (Inl (KeyTooLong key (maxKeySizeBytes (options c))), c))
   \<and> (length key \<le> maxKeySizeBytes (options c) \<and> validateValue ext c v = Inl e \<longrightarrow>
      client_set ext key v c = (Inl e, c))
   \<and> (fst (invoke ext op c) \<noteq> Inr () \<longrightarrow> snd (invoke ext op c) = c)
   \<and> (fst (invoke ext op c) = Inr () \<longrightarrow>
      (\<exists>data. written (socket (snd (invoke ext op c))) = written (socket c) @ [data]))"
proof -
  have rejected: "snd (invoke ext op c) = c" if "fst (invoke ext op c) \<noteq> Inr ()"
  proof -
    from that obtain e' where "fst (invoke ext op c) = Inl e'"
      by (cases "fst (invoke ext op c)") auto
    then show ?thesis by (rule invoke_rejected_unchanged)
  qed
  have accepted: "\<exists>data. written (socket (snd (invoke ext op c))) = written (socket c) @ [data]"
    if "fst (invoke ext op c) = Inr ()"
  proof -
    from invoke_accepted_socket [OF that] obtain data w where
      "socket (snd (invoke ext op c))
       = (socket c)\<lparr>written := written (socket c) @ [data],
                    data_listeners := data_listeners (socket c) @ [w]\<rparr>"
      by blast
    then have "written (socket (snd (invoke ext op c))) = written (socket c) @ [data]"
      by simp
    then show ?thesis by blast
  qed
  from rejected accepted show ?thesis
    by (simp add: client_get_long client_set_long client_exists_long client_delete_long
        client_set_value_rejected)
qed

theorem validation_before_frame_before_write_witness:
  "maxKeySizeBytes (options (connected_client 2 2)) < length (js ''abc'')
   \<and> client_set sample_externals (js ''abc'') (VString (js ''xyz'')) (connected_client 2 2)
       = (Inl (KeyTooLong (js ''abc'') 2), connected_client 2 2)
   \<and> length (js ''ab'') \<le> maxKeySizeBytes (options (connected_client 2 2))
   \<and> validateValue sample_externals (connected_client 2 2) (VString (js ''xyz''))
       = Inl (ValueTooLong 2)
   \<and> client_set sample_externals (js ''ab'') (VString (js ''xyz'')) (connected_client 2 2)
       = (Inl (ValueTooLong 2), connected_client 2 2)
   \<and> fst (invoke sample_externals (Set (js ''ab'') (VString (js ''x''))) (connected_client 2 2))
       \<noteq> Inr ()
   \<and> snd (invoke sample_externals (Set (js ''ab'') (VString (js ''x''))) (connected_client 2 2))
       = connected_client 2 2
   \<and> fst (invoke sample_externals (Get (js ''ab'')) (connected_client 2 2)) = Inr ()
   \<and> written (socket (snd (invoke sample_externals (Get (js ''ab'')) (connected_client 2 2))))
       = [[1, 0x61, 0x62]]"
proof -
  let ?c = "connected_client 2 2"
  have k: "maxKeySizeBytes (options ?c) = 2" and w: "written (socket ?c) = []"
    by (simp_all add: sample_defs)
  have h1: "maxKeySizeBytes (options ?c) < length (js ''abc'')"
    by (simp add: sample_defs)
  have h2: "length (js ''ab'') \<le> maxKeySizeBytes (options ?c)"
    by (simp add: sample_defs)
  have h3: "validateValue sample_externals ?c (VString (js ''xyz'')) = Inl (ValueTooLong 2)"
    by (simp add: sample_defs validateValue_def)
  have h4: "fst (invoke sample_externals (Set (js ''ab'') (VString (js ''x''))) ?c) \<noteq> Inr ()"
    by (simp add: sample_defs method_defs)
  have h5: "invoke sample_externals (Get (js ''ab'')) ?c
            = write_and_wait [1, 0x61, 0x62] Awaiting_get ?c"
    using client_get_fits [OF h2, of sample_externals]
    by (simp add: k) (simp add: sample_externals_def js_def)
  have h6: "fst (invoke sample_externals (Get (js ''ab'')) ?c) = Inr ()"
    by (simp only: h5 write_and_wait_accepted)
  note t = validation_before_frame_before_write
  from t [of ?c "js ''abc''" sample_externals "VString (js ''xyz'')"] h1
  have a: "client_set sample_externals (js ''abc'') (VString (js ''xyz'')) ?c
           = (Inl (KeyTooLong (js ''abc'') 2), ?c)"
    by (simp add: k)
  from t [of ?c "js ''ab''" sample_externals "VString (js ''xyz'')" "ValueTooLong 2"] h2 h3
  have b: "client_set sample_externals (js ''ab'') (VString (js ''xyz'')) ?c
           = (Inl (ValueTooLong 2), ?c)"
    by blast
  from t [of ?c "js ''ab''" sample_externals "VBoolean True" "ValueTooLong 2"
            "Set (js ''ab'') (VString (js ''x''))"] h4
  have d: "snd (invoke sample_externals (Set (js ''ab'') (VString (js ''x''))) ?c) = ?c"
    by blast
  have e: "written (socket (snd (invoke sample_externals (Get (js ''ab'')) ?c)))
           = [[1, 0x61, 0x62]]"
    by (simp only: h5 write_and_wait_socket) (simp add: w)
  from h1 a h2 h3 b h4 d h6 e show ?thesis by blast
qed

text \<open>
  C1 (not met by the code). The frame \<^verbatim>\<open>set\<close> allocates has 1 + K + len(value) bytes,
  but the value is copied to the constant offset 33, not to 1 + K. With K = 4 the value
  does not fit behind offset 33, the copy throws and nothing is sent. With K = 40 the
  value lands at offset 33, inside the key region, and offset 41 holds a zero.
\<close>

theorem set_copies_value_to_offset_33:
  "client_set sample_externals (js ''k'') (VString (js ''v'')) (connected_client 4 16)
     = (Inl RangeError, connected_client 4 16)
   \<and> written (socket (snd (client_set sample_externals (js ''user1'') (VString (js ''abc''))
                             (connected_client 40 16))))
     = [[2, 0x75, 0x73, 0x65, 0x72, 0x31, 0, 0, 0, 0, 0, 0, 0, 0, 0, 0, 0, 0, 0, 0, 0, 0, 0,
         0, 0, 0, 0, 0, 0, 0, 0, 0, 0, 0x61, 0x62, 0x63, 0, 0, 0, 0, 0, 0, 0, 0]]"
  by (simp add: sample_defs method_defs replicate_numeral)

text \<open>
  C3 (as stated, refuted). With maximum key size 8 and maximum value size 16,
  \<^verbatim>\<open>set('user1', 'abc')\<close> is rejected with a \<^verbatim>\<open>RangeError\<close> and writes nothing; and
  the twelve bytes the claim lists are not 25 bytes.
\<close>

theorem set_user1_abc_counterexample:
  "fst (client_set sample_externals (js ''user1'') (VString (js ''abc'')) (connected_client 8 16))
     = Inl RangeError
   \<and> written (socket (snd (client_set sample_externals (js ''user1'') (VString (js ''abc''))
                             (connected_client 8 16)))) = []
   \<and> length [Commands_SET sample_externals, 0x75, 0x73, 0x65, 0x72, 0x31, 0, 0, 0,
              0x61, 0x62, 0x63] \<noteq> 25"
  by (simp add: sample_defs method_defs)

text \<open>
  C3 (amended). With maximum key size 8 and maximum value size 16,
  \<^verbatim>\<open>set('user1', 'abc')\<close> passes the key and the value validation, encodes the value
  as the three bytes 'a', 'b', 'c', and allocates a frame of 12 = 1 + 8 + 3 bytes which,
  once the command code and the key have been stored, holds SET at byte 0 and
  'u', 's', 'e', 'r', '1', 0, 0, 0 in the key region. A set whose listener receives the
  single byte 1 resolves to true.
\<close>

theorem set_user1_abc_frame:
  "validateKey (connected_client 8 16) (js ''user1'') = Inr ()
   \<and> validateValue ext (connected_client 8 16) (VString (js ''abc'')) = Inr ()
   \<and> encodeValue ext (VString (js ''abc'')) = [0x61, 0x62, 0x63]
   \<and> command_and_key (Commands_SET ext) (connected_client 8 16) (js ''user1'')
        (length (encodeValue ext (VString (js ''abc''))))
       = Inr [Commands_SET ext, 0x75, 0x73, 0x65, 0x72, 0x31, 0, 0, 0, 0, 0, 0]
   \<and> length [Commands_SET ext, 0x75, 0x73, 0x65, 0x72, 0x31, 0, 0, 0, 0, 0, (0::byte)] = 12
   \<and> resume Awaiting_set [1] = Resolved_boolean True"
  by (simp add: sample_defs method_defs first_byte_is_one_def replicate_numeral)

theorem set_user1_abc_frame_witness:
  "command_and_key 2 (connected_client 8 16) (js ''user1'') 3
     = Inr [2, 0x75, 0x73, 0x65, 0x72, 0x31, 0, 0, 0, 0, 0, 0]
   \<and> resume Awaiting_set [1] = Resolved_boolean True"
proof -
  have l: "length (encodeValue sample_externals (VString (js ''abc''))) = 3"
    by (simp add: sample_defs method_defs)
  have s: "Commands_SET sample_externals = 2"
    by (simp add: sample_externals_def)
  from set_user1_abc_frame [of sample_externals] show ?thesis
    by (simp only: l s)
qed

text \<open>
  C6 (not met by the code). The value validation compares the string's length in UTF-16
  code units, not its UTF-8 byte length: with a maximum value size of 1 the one-character
  string U+00E9 is accepted, although it encodes to the two bytes C3 A9, and both are sent.
\<close>

theorem validateValue_counts_code_units:
  "validateValue sample_externals (connected_client 32 1) (VString [0xE9]) = Inr ()
   \<and> encodeValue sample_externals (VString [0xE9]) = [0xC3, 0xA9]
   \<and> written (socket (snd (client_set sample_externals (js ''k'') (VString [0xE9])
                             (connected_client 32 1))))
     = [[2, 0x6B, 0, 0, 0, 0, 0, 0, 0, 0, 0, 0, 0, 0, 0, 0, 0, 0, 0, 0, 0, 0, 0,
         0, 0, 0, 0, 0, 0, 0, 0, 0, 0, 0xC3, 0xA9]]"
  by (simp add: sample_defs method_defs replicate_numeral)



text \<open>
  C2 (as stated, refuted). Two \<^verbatim>\<open>get\<close> calls in a row, with no \<^verbatim>\<open>'data'\<close> event
  between them: when the second is called the first listener is still waiting, and the
  second call is not rejected and writes its frame at once, so that both frames have been
  written and both listeners wait.
\<close>

theorem second_frame_written_while_first_outstanding:
  "data_listeners (socket (snd (client_get sample_externals (js ''a'') (connected_client 2 16))))
     = [Awaiting_get]
   \<and> fst (client_get sample_externals (js ''b'')
            (snd (client_get sample_externals (js ''a'') (connected_client 2 16)))) = Inr ()
   \<and> written (socket (snd (client_get sample_externals (js ''b'')
            (snd (client_get sample_externals (js ''a'') (connected_client 2 16))))))
     = [[1, 0x61, 0], [1, 0x62, 0]]
   \<and> data_listeners (socket (snd (client_get sample_externals (js ''b'')
            (snd (client_get sample_externals (js ''a'') (connected_client 2 16))))))
     = [Awaiting_get, Awaiting_get]"
  by (simp add: sample_defs method_defs replicate_numeral)

text \<open>
  C2 (amended). The client has no busy guard and no queue. When an operation has written
  its frame and its response is outstanding, a second operation has the same outcome as
  it would have with nothing outstanding: if its local checks fail it is rejected and
  touches nothing, and otherwise it hands its whole frame to the socket at once, in one
  write, behind the first frame. Frames reach the socket whole and in call order, so the
  bytes of two frames are never interleaved.
\<close>

theorem second_operation_not_held_back:
  assumes "invoke ext op1 c = (Inr (), c1)" and "invoke ext op2 c1 = (r, c2)"
  shows "\<exists>f1 w1.
           socket c1 = (socket c)\<lparr>written := written (socket c) @ [f1],
                                 data_listeners := data_listeners (socket c) @ [w1]\<rparr>
         \<and> r = fst (invoke ext op2 c)
         \<and> (case r of
              Inl e \<Rightarrow> c2 = c1
            | Inr u \<Rightarrow>
                (\<exists>f2 w2.
                   socket c2 = (socket c)\<lparr>written := written (socket c) @ [f1, f2],
                                         data_listeners := data_listeners (socket c) @ [w1, w2]\<rparr>
                 \<and> written (socket (snd (invoke ext op2 c))) = written (socket c) @ [f2]))"
proof -
  from invoke_alone [of ext op1 c] assms(1)
  obtain f1 w1 where first: "invoke ext op1 c = write_and_wait f1 w1 c"
    by auto
  with assms(1) have c1: "c1 = snd (write_and_wait f1 w1 c)"
    by simp
  then have s1: "socket c1 = (socket c)\<lparr>written := written (socket c) @ [f1],
                                        data_listeners := data_listeners (socket c) @ [w1]\<rparr>"
    by (simp add: write_and_wait_socket)
  from c1 have "options c1 = options c"
    by (simp add: write_and_wait_def)
  from invoke_outcome [OF this, of ext op2]
  consider (rejected) e where "invoke ext op2 c = (Inl e, c)" "invoke ext op2 c1 = (Inl e, c1)"
    | (accepted) f2 w2 where "invoke ext op2 c = write_and_wait f2 w2 c"
        "invoke ext op2 c1 = write_and_wait f2 w2 c1"
    by blast
  then show ?thesis
  proof cases
    case rejected
    with assms(2) have "r = Inl e" and "c2 = c1" and "fst (invoke ext op2 c) = Inl e"
      by simp_all
    with s1 show ?thesis
      by (intro exI [of _ f1] exI [of _ w1]) simp
  next
    case accepted
    with assms(2) have r: "r = Inr ()" and c2: "c2 = snd (write_and_wait f2 w2 c1)"
      by (simp_all add: write_and_wait_def)
    from accepted(1) have alone: "fst (invoke ext op2 c) = Inr ()"
      "written (socket (snd (invoke ext op2 c))) = written (socket c) @ [f2]"
      by (simp_all add: write_and_wait_def socket_write_def socket_once_data_def)
    from c2 s1 have s2: "socket c2 = (socket c)\<lparr>written := written (socket c) @ [f1, f2],
                                        data_listeners := data_listeners (socket c) @ [w1, w2]\<rparr>"
      by (simp add: write_and_wait_socket)
    have "\<exists>f2 w2.
            socket c2 = (socket c)\<lparr>written := written (socket c) @ [f1, f2],
                                  data_listeners := data_listeners (socket c) @ [w1, w2]\<rparr>
          \<and> written (socket (snd (invoke ext op2 c))) = written (socket c) @ [f2]"
      using s2 alone(2) by blast
    with s1 r alone(1) show ?thesis
      by (intro exI [of _ f1] exI [of _ w1]) simp
  qed
qed

theorem second_operation_not_held_back_witness:
  "invoke sample_externals Ping (connected_client 2 16)
     = (Inr (), snd (client_ping sample_externals (connected_client 2 16)))
   \<and> data_listeners (socket (snd (client_ping sample_externals (connected_client 2 16))))
     = [Awaiting_ping]
   \<and> fst (invoke sample_externals (Exists (js ''k''))
            (snd (client_ping sample_externals (connected_client 2 16))))
     = fst (invoke sample_externals (Exists (js ''k'')) (connected_client 2 16))"
proof -
  let ?c = "connected_client 2 16"
  let ?c1 = "snd (client_ping sample_externals ?c)"
  have h1: "invoke sample_externals Ping ?c = (Inr (), ?c1)"
    by (simp add: client_ping_def write_and_wait_def)
  have h2: "invoke sample_externals (Exists (js ''k'')) ?c1
            = (fst (invoke sample_externals (Exists (js ''k'')) ?c1),
               snd (invoke sample_externals (Exists (js ''k'')) ?c1))"
    by simp
  have l: "data_listeners (socket ?c1) = [Awaiting_ping]"
    by (simp add: sample_defs method_defs)
  from second_operation_not_held_back [OF h1 h2] h1 l
  show ?thesis by blast
qed

text \<open>
  C4 (as stated, refuted). After \<^verbatim>\<open>close\<close> a \<^verbatim>\<open>ping\<close> is not rejected: it calls
  \<^verbatim>\<open>write\<close> on the destroyed socket and waits. On a client that was never connected a
  \<^verbatim>\<open>get\<close> does the same.
\<close>

theorem operations_run_without_connection:
  "state (socket (client_close (connected_client 2 16))) = Destroyed
   \<and> fst (client_ping sample_externals (client_close (connected_client 2 16))) = Inr ()
   \<and> written (socket (snd (client_ping sample_externals (client_close (connected_client 2 16)))))
     = [[0]]
   \<and> data_listeners
       (socket (snd (client_ping sample_externals (client_close (connected_client 2 16)))))
     = [Awaiting_ping]
   \<and> state (socket (sample_client 2 16)) = Unopened
   \<and> fst (client_get sample_externals (js ''k'') (sample_client 2 16)) = Inr ()
   \<and> written (socket (snd (client_get sample_externals (js ''k'') (sample_client 2 16))))
     = [[1, 0x6B, 0]]"
  by (simp add: sample_defs method_defs replicate_numeral)

text \<open>
  C4 (amended). No operation looks at the connection state, and the client has no
  not-connected and no session-closed error. In every state of the socket (never
  connected, connected, closed) an operation has the same outcome and hands the same
  buffers to the socket, and leaves the state as it is; in particular after
  \<^verbatim>\<open>close\<close> every operation has the outcome it has before. \<^verbatim>\<open>ping\<close> is never
  rejected, and the other operations are rejected only with the key-too-long error, the
  value-too-long error or the \<^verbatim>\<open>RangeError\<close> of the frame construction.
\<close>

theorem operations_ignore_connection_state:
  "fst (invoke ext op (c\<lparr>socket := (socket c)\<lparr>state := st\<rparr>\<rparr>)) = fst (invoke ext op c)
   \<and> written (socket (snd (invoke ext op (c\<lparr>socket := (socket c)\<lparr>state := st\<rparr>\<rparr>))))
     = written (socket (snd (invoke ext op c)))
   \<and> state (socket (snd (invoke ext op (c\<lparr>socket := (socket c)\<lparr>state := st\<rparr>\<rparr>)))) = st
   \<and> fst (invoke ext op (client_close c)) = fst (invoke ext op c)
   \<and> fst (client_ping ext c) = Inr ()
   \<and> (case fst (invoke ext op c) of
        Inr u \<Rightarrow> True
      | Inl (KeyTooLong k n) \<Rightarrow> n = maxKeySizeBytes (options c)
      | Inl (ValueTooLong n) \<Rightarrow> n = maxValueSizeBytes (options c)
      | Inl RangeError \<Rightarrow> True
      | Inl SocketError \<Rightarrow> False)"
proof -
  let ?c' = "c\<lparr>socket := (socket c)\<lparr>state := st\<rparr>\<rparr>"
  have o: "options ?c' = options c"
    by simp
  have same: "fst (invoke ext op ?c') = fst (invoke ext op c)
              \<and> written (socket (snd (invoke ext op ?c'))) = written (socket (snd (invoke ext op c)))
              \<and> state (socket (snd (invoke ext op ?c'))) = st"
    using invoke_outcome [OF o, of ext op]
    by (auto simp: write_and_wait_def socket_write_def socket_once_data_def)
  have closed: "fst (invoke ext op (client_close c)) = fst (invoke ext op c)"
    using invoke_outcome [of "client_close c" c ext op]
    by (auto simp: client_close_def socket_destroy_def write_and_wait_def)
  have ping: "fst (client_ping ext c) = Inr ()"
    by (simp add: client_ping_def write_and_wait_def)
  have errors: "(case fst (invoke ext op c) of
        Inr u \<Rightarrow> True
      | Inl (KeyTooLong k n) \<Rightarrow> n = maxKeySizeBytes (options c)
      | Inl (ValueTooLong n) \<Rightarrow> n = maxValueSizeBytes (options c)
      | Inl RangeError \<Rightarrow> True
      | Inl SocketError \<Rightarrow> False)"
    by (cases op)
       (auto simp: method_defs split: sum.splits error.splits SerializableValue.splits if_splits)
  from same closed ping errors show ?thesis by blast
qed

theorem operations_ignore_connection_state_witness:
  "state (socket (client_close (connected_client 2 16))) = Destroyed
   \<and> fst (invoke sample_externals (Delete (js ''k'')) (client_close (connected_client 2 16)))
     = fst (invoke sample_externals (Delete (js ''k'')) (connected_client 2 16))
   \<and> fst (client_ping sample_externals (connected_client 2 16)) = Inr ()"
proof -
  have d: "state (socket (client_close (connected_client 2 16))) = Destroyed"
    by (simp add: client_close_def socket_destroy_def)
  from operations_ignore_connection_state
         [where ext = sample_externals and op = "Delete (js ''k'')"
            and c = "connected_client 2 16" and st = Destroyed] d
  show ?thesis by blast
qed


end
